theory Spec2Isabelle
  imports Main "HOL-Library.Word"
begin

section \<open>Byte buffers\<close>

text \<open>
  A Node \<^verbatim>\<open>Buffer\<close> is a sequence of bytes. A parameter typed \<^verbatim>\<open>Buffer\<close> can still
  receive \<^verbatim>\<open>null\<close> or \<^verbatim>\<open>undefined\<close> at run time, which is what the falsy test of
  \<^verbatim>\<open>SecureTrie.put\<close> is for: such a parameter is a \<open>Buffer option\<close>, \<open>None\<close> standing for
  \<^verbatim>\<open>null\<close>/\<^verbatim>\<open>undefined\<close>.
\<close>

type_synonym Buffer = "8 word list"

definition isFalsy :: "Buffer option \<Rightarrow> bool" where
  \<comment> \<open>\<^verbatim>\<open>isFalsy\<close> of @ethereumjs/util on a value that is a Buffer or null/undefined:
      an object is never falsy, whatever its bytes.\<close>
  "isFalsy val = (case val of None \<Rightarrow> True | Some b \<Rightarrow> False)"

definition toString_is_empty :: "Buffer \<Rightarrow> bool" where
  \<comment> \<open>\<^verbatim>\<open>val.toString() === ''\<close>: the UTF-8 decoding of a buffer yields at least one
      code unit per non-empty input (a malformed byte becomes U+FFFD), so the string is
      empty exactly for the buffer of length 0.\<close>
  "toString_is_empty b = (b = [])"

section \<open>The base trie\<close>

text \<open>
  Modelled from the spec: the base class \<^verbatim>\<open>CheckpointTrie\<close> (\<^verbatim>\<open>./checkpoint\<close>) that
  \<^verbatim>\<open>SecureTrie\<close> extends is not among the sources. The spec's storage model is a mapping
  from keys to values in which an unset key reads as absent, a deletion unsets the key,
  and the root is determined by the mapping (writing to an unset slot what it already
  holds is a no-op for the root). The root is the image of the contents under a
  commitment function \<open>R\<close>, left as a parameter.
\<close>

type_synonym Trie = "Buffer \<rightharpoonup> Buffer"

definition Trie_get :: "Trie \<Rightarrow> Buffer \<Rightarrow> Buffer option" where
  "Trie_get t k = t k"

definition Trie_put :: "Trie \<Rightarrow> Buffer \<Rightarrow> Buffer \<Rightarrow> Trie" where
  "Trie_put t k v = t(k \<mapsto> v)"

definition Trie_del :: "Trie \<Rightarrow> Buffer \<Rightarrow> Trie" where
  "Trie_del t k = t(k := None)"

definition Trie_root :: "(Trie \<Rightarrow> 'h) \<Rightarrow> Trie \<Rightarrow> 'h" where
  "Trie_root R t = R t"

section \<open>SecureTrie\<close>

text \<open>
  \<^verbatim>\<open>SecureTrie\<close> hashes every key with keccak256 before it reaches the base trie. The
  hash function is a parameter \<open>keccak256\<close> of each operation.
\<close>

definition SecureTrie_get :: "(Buffer \<Rightarrow> Buffer) \<Rightarrow> Trie \<Rightarrow> Buffer \<Rightarrow> Buffer option" where
  "SecureTrie_get keccak256 t key = (let hash = keccak256 key in Trie_get t hash)"

definition SecureTrie_del :: "(Buffer \<Rightarrow> Buffer) \<Rightarrow> Trie \<Rightarrow> Buffer \<Rightarrow> Trie" where
  "SecureTrie_del keccak256 t key = (let hash = keccak256 key in Trie_del t hash)"

definition SecureTrie_put ::
  "(Buffer \<Rightarrow> Buffer) \<Rightarrow> Trie \<Rightarrow> Buffer \<Rightarrow> Buffer option \<Rightarrow> Trie" where
  "SecureTrie_put keccak256 t key val =
     (case val of
        None \<Rightarrow> SecureTrie_del keccak256 t key
      | Some b \<Rightarrow>
          if isFalsy val \<or> toString_is_empty b then SecureTrie_del keccak256 t key
          else (let hash = keccak256 key in Trie_put t hash b))"

section \<open>Chain parameters and errors\<close>

text \<open>
  \<^verbatim>\<open>Hardfork\<close> is the enum of @ethereumjs/common; \<^verbatim>\<open>Common.hardfork()\<close> returns
  \<^verbatim>\<open>string | Hardfork\<close>, so any tag other than the fifteen members the engine lists
  is an \<open>OtherHardfork\<close> carrying its name. Of a \<^verbatim>\<open>Common\<close> the engine reads the active
  rule-set tag and the activated amendment numbers.
\<close>

datatype Hardfork =
    Chainstart | Homestead | Dao | TangerineWhistle | SpuriousDragon | Byzantium
  | Constantinople | Petersburg | Istanbul | MuirGlacier | Berlin | London
  | ArrowGlacier | MergeForkIdTransition | Merge | OtherHardfork string

datatype Chain = Mainnet | OtherChain string

record Common =
  chain_name :: Chain
  hardfork :: Hardfork
  eips :: "int list"

definition Common_new :: "Chain \<Rightarrow> Common" where
  \<comment> \<open>\<^verbatim>\<open>new Common({ chain })\<close>; the doc comment of \<^verbatim>\<open>VMOpts.common\<close> gives the default
      setup: hardfork \<^verbatim>\<open>london\<close>, eips \<^verbatim>\<open>[]\<close>.\<close>
  "Common_new c = \<lparr>chain_name = c, hardfork = London, eips = []\<rparr>"

text \<open>
  The constructor throws plain \<^verbatim>\<open>Error\<close>s told apart by their message; the constructors
  below are the spec's names for them:
  \<^item> \<open>LegacyOptionRejected\<close>: \<^verbatim>\<open>Chain/hardfork options are not allowed any more on initialization\<close>;
  \<^item> \<open>UnsupportedAmendment eip\<close>: \<^verbatim>\<open>EIP-${eip} is not supported by the VM\<close>;
  \<^item> \<open>UnsupportedRuleSet hf\<close>: \<^verbatim>\<open>Hardfork ${hf} not set as supported in supportedHardforks\<close>;
  \<^item> \<open>ConflictingHardforkSelectors\<close>:
    \<^verbatim>\<open>The hardforkByBlockNumber and hardforkByTD options can't be used in conjunction\<close>.

  \<open>JournalUnderflow\<close> is the spec's error for a commit without a checkpoint, and
  \<open>CollaboratorError\<close> a rejection coming out of a collaborator (block store, genesis
  generation).
\<close>

datatype Error =
    LegacyOptionRejected
  | UnsupportedAmendment int
  | UnsupportedRuleSet Hardfork
  | ConflictingHardforkSelectors
  | JournalUnderflow
  | CollaboratorError string

definition supportedEIPs :: "int list" where
  "supportedEIPs =
     [1153, 1559, 2315, 2537, 2565, 2718, 2929, 2930, 3074, 3198, 3529, 3540, 3541, 3607, 3651,
      3670, 3855, 3860, 4399]"

definition supportedHardforks :: "Hardfork list" where
  "supportedHardforks =
     [Chainstart, Homestead, Dao, TangerineWhistle, SpuriousDragon, Byzantium, Constantinople,
      Petersburg, Istanbul, MuirGlacier, Berlin, London, ArrowGlacier, MergeForkIdTransition,
      Merge]"

section \<open>Accounts and the state store\<close>

text \<open>
  Modelled from the spec: \<^verbatim>\<open>Account\<close> and \<^verbatim>\<open>Address\<close> (ethereumjs-util) and the state
  store behind \<^verbatim>\<open>eei.state\<close> are not among the sources. An account is nonce, balance,
  storage root and code hash, and is empty when nonce and balance are 0 and the code hash
  is the hash of the empty string. The store answers \<^verbatim>\<open>getAccount\<close> with an empty account
  on a miss; checkpoints nest as a stack and a commit folds the top level into its parent.
  \<open>calls\<close> records, in order, the mutating calls the store has received.
\<close>

type_synonym Address = Buffer

record Account =
  nonce :: nat
  balance :: nat
  stateRoot :: Buffer
  codeHash :: Buffer

definition KECCAK256_NULL :: Buffer where
  "KECCAK256_NULL =
     [0xc5, 0xd2, 0x46, 0x01, 0x86, 0xf7, 0x23, 0x3c, 0x92, 0x7e, 0x7d, 0xb2, 0xdc, 0xc7, 0x03, 0xc0,
      0xe5, 0x00, 0xb6, 0x53, 0xca, 0x82, 0x27, 0x3b, 0x7b, 0xfa, 0xd8, 0x04, 0x5d, 0x85, 0xa4, 0x70]"

definition KECCAK256_RLP :: Buffer where
  "KECCAK256_RLP =
     [0x56, 0xe8, 0x1f, 0x17, 0x1b, 0xcc, 0x55, 0xa6, 0xff, 0x83, 0x45, 0xe6, 0x92, 0xc0, 0xf8, 0x6e,
      0x5b, 0x48, 0xe0, 0x1b, 0x99, 0x6c, 0xad, 0xc0, 0x01, 0x62, 0x2f, 0xb5, 0xe3, 0x63, 0xb4, 0x21]"

definition Account_new :: Account where
  "Account_new = \<lparr>nonce = 0, balance = 0, stateRoot = KECCAK256_RLP, codeHash = KECCAK256_NULL\<rparr>"

definition Account_fromAccountData :: "nat \<Rightarrow> Buffer \<Rightarrow> Account" where
  \<comment> \<open>\<^verbatim>\<open>Account.fromAccountData({ balance, stateRoot })\<close>: the two fields the engine
      passes; nonce and code hash take their defaults.\<close>
  "Account_fromAccountData b r = \<lparr>nonce = 0, balance = b, stateRoot = r, codeHash = KECCAK256_NULL\<rparr>"

definition isEmpty :: "Account \<Rightarrow> bool" where
  "isEmpty a = (balance a = 0 \<and> nonce a = 0 \<and> codeHash a = KECCAK256_NULL)"

datatype StateCall =
    CallCheckpoint
  | CallCommit
  | CallPutAccount Address Account

record StateManager =
  accounts :: "Address \<rightharpoonup> Account"
  checkpoints :: "(Address \<rightharpoonup> Account) list"
  calls :: "StateCall list"

definition getAccount :: "StateManager \<Rightarrow> Address \<Rightarrow> Account" where
  "getAccount s a = (case accounts s a of None \<Rightarrow> Account_new | Some acc \<Rightarrow> acc)"

definition putAccount :: "StateManager \<Rightarrow> Address \<Rightarrow> Account \<Rightarrow> StateManager" where
  "putAccount s a acc =
     s\<lparr>accounts := (accounts s)(a \<mapsto> acc), calls := calls s @ [CallPutAccount a acc]\<rparr>"

definition checkpoint :: "StateManager \<Rightarrow> StateManager" where
  "checkpoint s = s\<lparr>checkpoints := accounts s # checkpoints s, calls := calls s @ [CallCheckpoint]\<rparr>"

definition commit :: "StateManager \<Rightarrow> Error + StateManager" where
  "commit s =
     (case checkpoints s of
        [] \<Rightarrow> Inl JournalUnderflow
      | _ # rest \<Rightarrow> Inr (s\<lparr>checkpoints := rest, calls := calls s @ [CallCommit]\<rparr>))"

section \<open>Collaborators of the engine\<close>

text \<open>
  The block store, the constructors and copy operations of the collaborators, genesis
  generation and the precompile table are imported by \<^verbatim>\<open>index.ts\<close> from other modules.
  They are parameters of the engine, collected in one record. An awaited call that may
  reject returns a sum. \<open>getActivePrecompiles\<close> gives the addresses of the table's keys,
  already decoded from hex.
\<close>

record 'bc Env =
  Blockchain_new :: "Common \<Rightarrow> 'bc"
  Blockchain_init :: "'bc \<Rightarrow> Error + 'bc"
  Blockchain_copy :: "'bc \<Rightarrow> 'bc"
  StateManager_new :: "Common \<Rightarrow> StateManager"
  StateManager_copy :: "StateManager \<Rightarrow> StateManager"
  Common_copy :: "Common \<Rightarrow> Common"
  generateCanonicalGenesis :: "StateManager \<Rightarrow> Error + StateManager"
  getActivePrecompiles :: "Common \<Rightarrow> Address list"
  process_env_DEBUG :: bool

section \<open>The engine\<close>

text \<open>
  An option of \<^verbatim>\<open>VMOpts\<close> that is absent (or \<^verbatim>\<open>undefined\<close>) is \<open>None\<close>. \<open>otherKeys\<close>
  lists the property names of the options object that \<^verbatim>\<open>VMOpts\<close> does not declare; the
  \<^verbatim>\<open>in\<close> operator of the legacy check looks there. A custom EEI is given by the state
  store behind its \<^verbatim>\<open>state\<close> property, the only part of it \<^verbatim>\<open>index.ts\<close> uses; the
  default EEI is built over the engine's own \<^verbatim>\<open>stateManager\<close>, so its state is that store.
  The default EEI is built with \<^verbatim>\<open>new TransientStorage()\<close>, a class \<^verbatim>\<open>index.ts\<close> names
  without importing it: it is taken to be in scope and to construct without error, as the
  other collaborators' constructors are. \<open>hardforkByTD\<close> is a \<^verbatim>\<open>BigIntLike\<close>, read as the
  integer that \<^verbatim>\<open>toType\<close> makes of it.
\<close>

record ('bc, 'evm) VMOpts =
  common :: "Common option"
  stateManager :: "StateManager option"
  blockchain :: "'bc option"
  activatePrecompiles :: "bool option"
  activateGenesisState :: "bool option"
  hardforkByBlockNumber :: "bool option"
  hardforkByTD :: "int option"
  eei :: "StateManager option"
  evm :: "'evm option"
  otherKeys :: "string list"

datatype EEI = DefaultEEI | CustomEEI StateManager

datatype 'evm EVM = DefaultEVM | CustomEVM 'evm

record ('bc, 'evm) VM =
  vm_stateManager :: StateManager
  vm_blockchain :: 'bc
  vm_common :: Common
  vm_evm :: "'evm EVM"
  vm_eei :: EEI
  vm_opts :: "('bc, 'evm) VMOpts"
  vm_isInitialized :: bool
  vm_hardforkByBlockNumber :: bool
  vm_hardforkByTD :: "int option"
  vm_DEBUG :: bool

definition truthy :: "bool option \<Rightarrow> bool" where
  \<comment> \<open>JavaScript truthiness of an optional boolean.\<close>
  "truthy b = (b = Some True)"

definition resolveCommon :: "('bc, 'evm) VMOpts \<Rightarrow> Error + Common" where
  \<comment> \<open>Lines 201-216: a supplied \<^verbatim>\<open>common\<close> is taken after the first of its amendments
      that is not supported has been looked for; otherwise the mainnet default.\<close>
  "resolveCommon opts =
     (case common opts of
        Some c \<Rightarrow>
          (case find (\<lambda>eip. eip \<notin> set supportedEIPs) (eips c) of
             Some eip \<Rightarrow> Inl (UnsupportedAmendment eip)
           | None \<Rightarrow> Inr c)
      | None \<Rightarrow> Inr (Common_new Mainnet))"

definition Common_supported :: "Common \<Rightarrow> bool" where
  \<comment> \<open>The amendment loop and the rule-set check of the constructor pass on \<open>c\<close>.\<close>
  "Common_supported c \<longleftrightarrow>
     find (\<lambda>eip. eip \<notin> set supportedEIPs) (eips c) = None
     \<and> hardfork c \<in> set supportedHardforks"

definition VM_constructor :: "'bc Env \<Rightarrow> ('bc, 'evm) VMOpts \<Rightarrow> Error + ('bc, 'evm) VM" where
  "VM_constructor E opts =
     (if ''chain'' \<in> set (otherKeys opts) \<or> ''hardfork'' \<in> set (otherKeys opts)
      then Inl LegacyOptionRejected
      else case resolveCommon opts of
        Inl e \<Rightarrow> Inl e
      | Inr c \<Rightarrow>
          if hardfork c \<notin> set supportedHardforks then Inl (UnsupportedRuleSet (hardfork c))
          else
            let sm = (case stateManager opts of Some s \<Rightarrow> s | None \<Rightarrow> StateManager_new E c);
                bc = (case blockchain opts of Some b \<Rightarrow> b | None \<Rightarrow> Blockchain_new E c);
                ee = (case eei opts of Some s \<Rightarrow> CustomEEI s | None \<Rightarrow> DefaultEEI);
                ev = (case evm opts of Some v \<Rightarrow> CustomEVM v | None \<Rightarrow> DefaultEVM)
            in
              if hardforkByBlockNumber opts \<noteq> None \<and> hardforkByTD opts \<noteq> None
              then Inl ConflictingHardforkSelectors
              else Inr \<lparr>vm_stateManager = sm, vm_blockchain = bc, vm_common = c, vm_evm = ev,
                        vm_eei = ee, vm_opts = opts, vm_isInitialized = False,
                        vm_hardforkByBlockNumber =
                          (case hardforkByBlockNumber opts of Some b \<Rightarrow> b | None \<Rightarrow> False),
                        vm_hardforkByTD = hardforkByTD opts,
                        vm_DEBUG = process_env_DEBUG E\<rparr>)"

definition eei_state :: "('bc, 'evm) VM \<Rightarrow> StateManager" where
  \<comment> \<open>\<^verbatim>\<open>this.eei.state\<close>\<close>
  "eei_state vm = (case vm_eei vm of DefaultEEI \<Rightarrow> vm_stateManager vm | CustomEEI s \<Rightarrow> s)"

definition set_eei_state :: "StateManager \<Rightarrow> ('bc, 'evm) VM \<Rightarrow> ('bc, 'evm) VM" where
  \<comment> \<open>The engine after a call on \<^verbatim>\<open>this.eei.state\<close> has left that store as \<open>s\<close>.\<close>
  "set_eei_state s vm =
     (case vm_eei vm of
        DefaultEEI \<Rightarrow> vm\<lparr>vm_stateManager := s\<rparr>
      | CustomEEI _ \<Rightarrow> vm\<lparr>vm_eei := CustomEEI s\<rparr>)"

fun primePrecompiles :: "Address list \<Rightarrow> StateManager \<Rightarrow> StateManager" where
  "primePrecompiles [] s = s"
| "primePrecompiles (address # rest) s =
     (let account = getAccount s address in
      if isEmpty account
      then primePrecompiles rest
             (putAccount s address (Account_fromAccountData 1 (stateRoot account)))
      else primePrecompiles rest s)"

definition init_genesis :: "'bc Env \<Rightarrow> ('bc, 'evm) VM \<Rightarrow> Error + ('bc, 'evm) VM" where
  \<comment> \<open>Lines 292-296.\<close>
  "init_genesis E vm =
     (if stateManager (vm_opts vm) = None
      then (if truthy (activateGenesisState (vm_opts vm))
            then (case generateCanonicalGenesis E (eei_state vm) of
                    Inl e \<Rightarrow> Inl e
                  | Inr s \<Rightarrow> Inr (set_eei_state s vm))
            else Inr vm)
      else Inr vm)"

definition init_precompiles :: "'bc Env \<Rightarrow> ('bc, 'evm) VM \<Rightarrow> Error + ('bc, 'evm) VM" where
  \<comment> \<open>Lines 298-312.\<close>
  "init_precompiles E vm =
     (if truthy (activatePrecompiles (vm_opts vm)) \<and> stateManager (vm_opts vm) = None
      then (case commit (primePrecompiles (getActivePrecompiles E (vm_common vm))
                           (checkpoint (eei_state vm))) of
              Inl e \<Rightarrow> Inl e
            | Inr s \<Rightarrow> Inr (set_eei_state s vm))
      else Inr vm)"

definition init :: "'bc Env \<Rightarrow> ('bc, 'evm) VM \<Rightarrow> Error + ('bc, 'evm) VM" where
  \<comment> \<open>\<open>Inr\<close> is the engine after \<^verbatim>\<open>init\<close> has resolved; \<open>Inl\<close> is a rejection, which
      leaves \<^verbatim>\<open>_isInitialized\<close> unset.\<close>
  "init E vm =
     (if vm_isInitialized vm then Inr vm
      else case Blockchain_init E (vm_blockchain vm) of
        Inl e \<Rightarrow> Inl e
      | Inr bc \<Rightarrow>
          (case init_genesis E (vm\<lparr>vm_blockchain := bc\<rparr>) of
             Inl e \<Rightarrow> Inl e
           | Inr vm1 \<Rightarrow>
               (case init_precompiles E vm1 of
                  Inl e \<Rightarrow> Inl e
                | Inr vm2 \<Rightarrow> Inr (vm2\<lparr>vm_isInitialized := True\<rparr>))))"

definition VM_create :: "'bc Env \<Rightarrow> ('bc, 'evm) VMOpts \<Rightarrow> Error + ('bc, 'evm) VM" where
  "VM_create E opts = (case VM_constructor E opts of Inl e \<Rightarrow> Inl e | Inr vm \<Rightarrow> init E vm)"

definition VM_copy :: "'bc Env \<Rightarrow> ('bc, 'evm) VM \<Rightarrow> Error + ('bc, 'evm) VM" where
  "VM_copy E vm =
     VM_create E
       \<lparr>common = Some (Common_copy E (vm_common vm)),
        stateManager = Some (StateManager_copy E (vm_stateManager vm)),
        blockchain = Some (Blockchain_copy E (vm_blockchain vm)),
        activatePrecompiles = None, activateGenesisState = None,
        hardforkByBlockNumber = None, hardforkByTD = None,
        eei = None, evm = None, otherKeys = []\<rparr>"

section \<open>Statement of the priming frame\<close>

text \<open>
  \<open>primed ps s s'\<close>: store \<open>s'\<close> is store \<open>s\<close> after the precompile priming over the
  addresses \<open>ps\<close>. Every account reads as before, but for the addresses of \<open>ps\<close> whose
  account was empty, which now hold balance 1 and their former storage root; the calls
  received since \<open>s\<close> are one checkpoint, account writes to addresses of \<open>ps\<close>, one commit;
  the checkpoint stack is as it was.
\<close>

definition primed :: "Address list \<Rightarrow> StateManager \<Rightarrow> StateManager \<Rightarrow> bool" where
  "primed ps s s' \<longleftrightarrow>
     (\<forall>a. getAccount s' a =
        (if a \<in> set ps \<and> isEmpty (getAccount s a)
         then Account_fromAccountData 1 (stateRoot (getAccount s a))
         else getAccount s a))
   \<and> (\<exists>ws. calls s' = calls s @ [CallCheckpoint] @ ws @ [CallCommit]
          \<and> (\<forall>c \<in> set ws. \<exists>a acc. c = CallPutAccount a acc \<and> a \<in> set ps))
   \<and> checkpoints s' = checkpoints s"

section \<open>A concrete environment\<close>

text \<open>
  Collaborators simple enough to run an engine by hand: the block store is the number of
  times its \<^verbatim>\<open>_init\<close> has run, genesis generation funds the second of two precompile
  addresses, and copying a state store keeps its accounts.
\<close>

definition example_store :: StateManager where
  "example_store = \<lparr>accounts = Map.empty, checkpoints = [], calls = []\<rparr>"

definition example_precompile_1 :: Address where
  "example_precompile_1 = [0,0,0,0,0,0,0,0,0,0,0,0,0,0,0,0,0,0,0,1]"

definition example_precompile_2 :: Address where
  "example_precompile_2 = [0,0,0,0,0,0,0,0,0,0,0,0,0,0,0,0,0,0,0,2]"

definition example_genesis_account :: Account where
  "example_genesis_account =
     \<lparr>nonce = 0, balance = 5, stateRoot = KECCAK256_RLP, codeHash = KECCAK256_NULL\<rparr>"

definition example_Env :: "nat Env" where
  "example_Env =
     \<lparr>Blockchain_new = (\<lambda>c. 0),
      Blockchain_init = (\<lambda>b. Inr (Suc b)),
      Blockchain_copy = (\<lambda>b. b),
      StateManager_new = (\<lambda>c. example_store),
      StateManager_copy = (\<lambda>s. s\<lparr>checkpoints := [], calls := []\<rparr>),
      Common_copy = (\<lambda>c. c),
      generateCanonicalGenesis =
        (\<lambda>s. Inr (s\<lparr>accounts := (accounts s)(example_precompile_2 \<mapsto> example_genesis_account)\<rparr>)),
      getActivePrecompiles = (\<lambda>c. [example_precompile_1, example_precompile_2]),
      process_env_DEBUG = False\<rparr>"

definition example_opts :: "(nat, unit) VMOpts" where
  \<comment> \<open>The empty options object \<^verbatim>\<open>{}\<close>.\<close>
  "example_opts =
     \<lparr>common = None, stateManager = None, blockchain = None, activatePrecompiles = None,
      activateGenesisState = None, hardforkByBlockNumber = None, hardforkByTD = None,
      eei = None, evm = None, otherKeys = []\<rparr>"

definition example_vm :: "(nat, unit) VMOpts \<Rightarrow> (nat, unit) VM" where
  \<comment> \<open>The engine the constructor builds from options without \<^verbatim>\<open>common\<close>,
      \<^verbatim>\<open>blockchain\<close>, \<^verbatim>\<open>eei\<close> and \<^verbatim>\<open>evm\<close>, before \<^verbatim>\<open>init\<close>.\<close>
  "example_vm opts =
     \<lparr>vm_stateManager = (case stateManager opts of Some s \<Rightarrow> s | None \<Rightarrow> example_store),
      vm_blockchain = 0, vm_common = Common_new Mainnet,
      vm_evm = DefaultEVM, vm_eei = DefaultEEI, vm_opts = opts, vm_isInitialized = False,
      vm_hardforkByBlockNumber = False, vm_hardforkByTD = None, vm_DEBUG = False\<rparr>"

section \<open>Properties of SecureTrie\<close>

text \<open>
  A value of at least one byte is stored, zero bytes included: only the buffer of length
  0 and the falsy values delete.
\<close>

lemma SecureTrie_put_nonempty_stores:
  "b \<noteq> [] \<Longrightarrow> SecureTrie_get keccak (SecureTrie_put keccak t key (Some b)) key = Some b"
  by (simp add: SecureTrie_put_def SecureTrie_get_def Trie_get_def Trie_put_def isFalsy_def
      toString_is_empty_def)

text \<open>
  C1. Storing an empty or falsy value in the secure trie is a deletion: for such a value
  \<open>put\<close> is \<open>del\<close>, a following \<open>get\<close> of the key finds nothing, and when the key was
  not set before, the root of the trie is unchanged.
\<close>

theorem SecureTrie_put_empty_is_del:
  assumes "val = None \<or> val = Some []"
  shows "SecureTrie_put keccak t key val = SecureTrie_del keccak t key
       \<and> SecureTrie_get keccak (SecureTrie_put keccak t key val) key = None
       \<and> (SecureTrie_get keccak t key = None \<longrightarrow>
            Trie_root R (SecureTrie_put keccak t key val) = Trie_root R t)"
proof -
  have eq: "SecureTrie_put keccak t key val = SecureTrie_del keccak t key"
    using assms by (auto simp: SecureTrie_put_def isFalsy_def toString_is_empty_def)
  have absent: "SecureTrie_get keccak (SecureTrie_del keccak t key) key = None"
    by (simp add: SecureTrie_get_def SecureTrie_del_def Trie_get_def Trie_del_def)
  have root: "Trie_root R (SecureTrie_del keccak t key) = Trie_root R t"
    if "SecureTrie_get keccak t key = None"
  proof -
    from that have "t (keccak key) = None"
      by (simp add: SecureTrie_get_def Trie_get_def)
    then have "t(keccak key := None) = t"
      by (simp add: fun_upd_idem_iff)
    then show ?thesis
      by (simp add: SecureTrie_del_def Trie_del_def)
  qed
  from eq absent root show ?thesis by simp
qed

theorem SecureTrie_put_empty_is_del_witness:
  "SecureTrie_put rev [[2, 1] \<mapsto> [7]] [3, 4] (Some []) = SecureTrie_del rev [[2, 1] \<mapsto> [7]] [3, 4]
   \<and> SecureTrie_get rev (SecureTrie_put rev [[2, 1] \<mapsto> [7]] [3, 4] (Some [])) [3, 4] = None
   \<and> Trie_root (\<lambda>t. t [2, 1]) (SecureTrie_put rev [[2, 1] \<mapsto> [7]] [3, 4] (Some []))
       = Trie_root (\<lambda>t. t [2, 1]) [[2, 1] \<mapsto> [7]]"
  using SecureTrie_put_empty_is_del
    [where val = "Some []" and keccak = rev and t = "[[2, 1] \<mapsto> [7]]" and key = "[3, 4]"
       and R = "\<lambda>t. t [2, 1]"]
  by (simp add: SecureTrie_get_def SecureTrie_del_def Trie_get_def Trie_del_def)

section \<open>Initialization\<close>

lemma init_sets_flag: "init E vm = Inr vm' \<Longrightarrow> vm_isInitialized vm'"
  by (auto simp: init_def split: if_splits sum.splits)

lemma example_init:
  "init example_Env (example_vm example_opts)
     = Inr ((example_vm example_opts)\<lparr>vm_blockchain := 1, vm_isInitialized := True\<rparr>)"
  by (simp add: init_def init_genesis_def init_precompiles_def example_Env_def example_opts_def
      example_vm_def truthy_def)

text \<open>
  C2. Initialization is idempotent: once \<open>init\<close> has completed on an engine, a further
  \<open>init\<close> returns successfully and leaves every part of the engine as it is (block store,
  state store and flags), whatever the collaborators would have done had they been called.
\<close>

theorem init_idempotent:
  assumes "init E vm = Inr vm'"
  shows "init E' vm' = Inr vm'"
  using init_sets_flag[OF assms] by (simp add: init_def)

theorem init_idempotent_witness:
  "init example_Env (example_vm example_opts)
     = Inr ((example_vm example_opts)\<lparr>vm_blockchain := 1, vm_isInitialized := True\<rparr>)
   \<and> init example_Env ((example_vm example_opts)\<lparr>vm_blockchain := 1, vm_isInitialized := True\<rparr>)
     = Inr ((example_vm example_opts)\<lparr>vm_blockchain := 1, vm_isInitialized := True\<rparr>)"
  using example_init init_idempotent[OF example_init, of example_Env] by simp

lemma init_with_stateManager:
  assumes "stateManager (vm_opts vm) \<noteq> None"
  shows "init E vm =
           (if vm_isInitialized vm then Inr vm
            else case Blockchain_init E (vm_blockchain vm) of
                   Inl e \<Rightarrow> Inl e
                 | Inr bc \<Rightarrow> Inr (vm\<lparr>vm_blockchain := bc, vm_isInitialized := True\<rparr>))"
  using assms
  by (auto simp: init_def init_genesis_def init_precompiles_def split: sum.splits)

text \<open>
  C3. An external state store disables both optional steps: when the options hold a
  \<open>stateManager\<close>, \<open>init\<close> does nothing but initialize the block store and set the flag,
  whatever \<open>activateGenesisState\<close> and \<open>activatePrecompiles\<close> say; the state store is left
  as it was, with no call recorded on it.
\<close>

theorem init_external_stateManager:
  assumes "stateManager (vm_opts vm) \<noteq> None"
  shows "init E vm =
           (if vm_isInitialized vm then Inr vm
            else case Blockchain_init E (vm_blockchain vm) of
                   Inl e \<Rightarrow> Inl e
                 | Inr bc \<Rightarrow> Inr (vm\<lparr>vm_blockchain := bc, vm_isInitialized := True\<rparr>))
       \<and> (init E vm = Inr vm' \<longrightarrow>
            vm_stateManager vm' = vm_stateManager vm \<and> eei_state vm' = eei_state vm)"
proof -
  note c = init_with_stateManager[OF assms, of E]
  have "vm_stateManager vm' = vm_stateManager vm \<and> eei_state vm' = eei_state vm"
    if "init E vm = Inr vm'"
    using that unfolding c by (auto simp: eei_state_def split: if_splits sum.splits EEI.splits)
  with c show ?thesis by blast
qed

theorem init_external_stateManager_witness:
  "init example_Env
     (example_vm (example_opts\<lparr>stateManager := Some example_store,
                    activatePrecompiles := Some True, activateGenesisState := Some True\<rparr>))
   = Inr ((example_vm (example_opts\<lparr>stateManager := Some example_store,
                    activatePrecompiles := Some True, activateGenesisState := Some True\<rparr>))
            \<lparr>vm_blockchain := 1, vm_isInitialized := True\<rparr>)
   \<and> eei_state ((example_vm (example_opts\<lparr>stateManager := Some example_store,
                    activatePrecompiles := Some True, activateGenesisState := Some True\<rparr>))
            \<lparr>vm_blockchain := 1, vm_isInitialized := True\<rparr>) = example_store"
  using init_external_stateManager
    [where vm = "example_vm (example_opts\<lparr>stateManager := Some example_store,
                    activatePrecompiles := Some True, activateGenesisState := Some True\<rparr>)"
       and E = example_Env
       and vm' = "(example_vm (example_opts\<lparr>stateManager := Some example_store,
                    activatePrecompiles := Some True, activateGenesisState := Some True\<rparr>))
            \<lparr>vm_blockchain := 1, vm_isInitialized := True\<rparr>"]
  by (simp add: example_vm_def example_opts_def example_Env_def eei_state_def)

section \<open>Construction\<close>

text \<open>
  C8. The constructor rejects legacy option keys: options holding a \<^verbatim>\<open>chain\<close> or a
  \<^verbatim>\<open>hardfork\<close> key make construction fail with \<open>LegacyOptionRejected\<close>, whatever the
  other options and the collaborators are, and no engine is returned.
\<close>

theorem VM_constructor_legacy:
  assumes "''chain'' \<in> set (otherKeys opts) \<or> ''hardfork'' \<in> set (otherKeys opts)"
  shows "VM_constructor E opts = Inl LegacyOptionRejected"
  using assms by (auto simp: VM_constructor_def)

theorem VM_constructor_legacy_witness:
  "VM_constructor example_Env (example_opts\<lparr>otherKeys := [''hardfork'']\<rparr>) = Inl LegacyOptionRejected"
  using VM_constructor_legacy
    [where opts = "example_opts\<lparr>otherKeys := [''hardfork'']\<rparr>" and E = example_Env]
  by (simp add: example_opts_def)

lemma VM_constructor_selectors_error:
  assumes "hardforkByBlockNumber opts \<noteq> None" "hardforkByTD opts \<noteq> None"
  shows "(\<exists>e. VM_constructor E opts = Inl e)
       \<and> (VM_constructor E opts = Inl ConflictingHardforkSelectors \<longleftrightarrow>
            ''chain'' \<notin> set (otherKeys opts) \<and> ''hardfork'' \<notin> set (otherKeys opts)
            \<and> (\<exists>c. resolveCommon opts = Inr c \<and> hardfork c \<in> set supportedHardforks))"
  using assms
  by (auto simp: VM_constructor_def Let_def resolveCommon_def split: sum.splits option.splits)

text \<open>
  C4, as the constructor has it. Options that supply both \<open>hardforkByBlockNumber\<close> and
  \<open>hardforkByTD\<close> never yield an engine. The error is \<open>ConflictingHardforkSelectors\<close>
  exactly when the checks the constructor makes before it pass: no legacy key, every
  amendment of a supplied \<open>common\<close> supported, and the rule-set tag supported.
\<close>

theorem VM_constructor_conflicting_selectors:
  assumes "hardforkByBlockNumber opts \<noteq> None" "hardforkByTD opts \<noteq> None"
  shows "(\<exists>e. VM_constructor E opts = Inl e)
       \<and> (VM_constructor E opts = Inl ConflictingHardforkSelectors \<longleftrightarrow>
            ''chain'' \<notin> set (otherKeys opts) \<and> ''hardfork'' \<notin> set (otherKeys opts)
            \<and> (\<exists>c. resolveCommon opts = Inr c \<and> hardfork c \<in> set supportedHardforks))"
  using assms by (rule VM_constructor_selectors_error)

theorem VM_constructor_conflicting_selectors_witness:
  "VM_constructor example_Env (example_opts\<lparr>hardforkByBlockNumber := Some True, hardforkByTD := Some 1\<rparr>)
     = Inl ConflictingHardforkSelectors"
  using VM_constructor_conflicting_selectors
    [where opts = "example_opts\<lparr>hardforkByBlockNumber := Some True, hardforkByTD := Some 1\<rparr>"
       and E = example_Env]
  by (simp add: example_opts_def resolveCommon_def Common_new_def supportedHardforks_def)

text \<open>
  With both selectors supplied and a legacy \<^verbatim>\<open>chain\<close> key besides, the error thrown is
  the legacy one, not \<open>ConflictingHardforkSelectors\<close>.
\<close>

theorem VM_constructor_conflicting_selectors_counterexample:
  "hardforkByBlockNumber (example_opts\<lparr>hardforkByBlockNumber := Some True, hardforkByTD := Some 1,
                                      otherKeys := [''chain'']\<rparr>) \<noteq> None
   \<and> hardforkByTD (example_opts\<lparr>hardforkByBlockNumber := Some True, hardforkByTD := Some 1,
                               otherKeys := [''chain'']\<rparr>) \<noteq> None
   \<and> VM_constructor example_Env
        (example_opts\<lparr>hardforkByBlockNumber := Some True, hardforkByTD := Some 1,
                      otherKeys := [''chain'']\<rparr>) = Inl LegacyOptionRejected
   \<and> VM_constructor example_Env
        (example_opts\<lparr>hardforkByBlockNumber := Some True, hardforkByTD := Some 1,
                      otherKeys := [''chain'']\<rparr>) \<noteq> Inl ConflictingHardforkSelectors"
  by (simp add: VM_constructor_def example_opts_def)

text \<open>
  C10, as the constructor has it. The selector check looks at whether the options are
  supplied, not at their truth: with \<open>hardforkByBlockNumber\<close> explicitly \<open>false\<close> and
  \<open>hardforkByTD\<close> supplied, no engine is returned, and the error is
  \<open>ConflictingHardforkSelectors\<close> exactly when the earlier checks of the constructor
  (legacy keys, amendments, rule-set tag) pass.
\<close>

theorem VM_constructor_false_selector_counts:
  assumes "hardforkByBlockNumber opts = Some False" "hardforkByTD opts = Some td"
  shows "(\<exists>e. VM_constructor E opts = Inl e)
       \<and> (VM_constructor E opts = Inl ConflictingHardforkSelectors \<longleftrightarrow>
            ''chain'' \<notin> set (otherKeys opts) \<and> ''hardfork'' \<notin> set (otherKeys opts)
            \<and> (\<exists>c. resolveCommon opts = Inr c \<and> hardfork c \<in> set supportedHardforks))"
  using assms by (intro VM_constructor_selectors_error) simp_all

theorem VM_constructor_false_selector_counts_witness:
  "VM_constructor example_Env (example_opts\<lparr>hardforkByBlockNumber := Some False, hardforkByTD := Some 0\<rparr>)
     = Inl ConflictingHardforkSelectors"
  using VM_constructor_false_selector_counts
    [where opts = "example_opts\<lparr>hardforkByBlockNumber := Some False, hardforkByTD := Some 0\<rparr>"
       and E = example_Env and td = 0]
  by (simp add: example_opts_def resolveCommon_def Common_new_def supportedHardforks_def)

text \<open>
  With \<open>hardforkByBlockNumber\<close> \<open>false\<close>, \<open>hardforkByTD\<close> supplied and a \<open>common\<close> whose
  rule-set tag the engine does not support, the error thrown is \<open>UnsupportedRuleSet\<close>.
\<close>

theorem VM_constructor_false_selector_counts_counterexample:
  "hardforkByBlockNumber
     (example_opts\<lparr>common := Some \<lparr>chain_name = Mainnet, hardfork = OtherHardfork ''shanghai'', eips = []\<rparr>,
                   hardforkByBlockNumber := Some False, hardforkByTD := Some 0\<rparr>) = Some False
   \<and> hardforkByTD
     (example_opts\<lparr>common := Some \<lparr>chain_name = Mainnet, hardfork = OtherHardfork ''shanghai'', eips = []\<rparr>,
                   hardforkByBlockNumber := Some False, hardforkByTD := Some 0\<rparr>) = Some 0
   \<and> VM_constructor example_Env
     (example_opts\<lparr>common := Some \<lparr>chain_name = Mainnet, hardfork = OtherHardfork ''shanghai'', eips = []\<rparr>,
                   hardforkByBlockNumber := Some False, hardforkByTD := Some 0\<rparr>)
       = Inl (UnsupportedRuleSet (OtherHardfork ''shanghai''))"
  by (simp add: VM_constructor_def example_opts_def resolveCommon_def supportedHardforks_def)

text \<open>
  C5, as the constructor has it. Construction fails with \<open>UnsupportedRuleSet\<close> exactly
  when it reaches the rule-set check (no legacy key, every amendment of a supplied
  \<open>common\<close> supported) and the tag of the chain parameters in use is outside
  \<open>supportedHardforks\<close>; so it never fails with that error for a tag in the list.
\<close>

theorem VM_constructor_UnsupportedRuleSet_iff:
  "VM_constructor E opts = Inl (UnsupportedRuleSet h) \<longleftrightarrow>
     (''chain'' \<notin> set (otherKeys opts) \<and> ''hardfork'' \<notin> set (otherKeys opts)
      \<and> (\<exists>c. resolveCommon opts = Inr c \<and> hardfork c \<notin> set supportedHardforks \<and> h = hardfork c))"
  by (auto simp: VM_constructor_def Let_def resolveCommon_def split: sum.splits option.splits)

theorem VM_constructor_UnsupportedRuleSet_witness:
  "VM_constructor example_Env
     (example_opts\<lparr>common := Some \<lparr>chain_name = Mainnet, hardfork = OtherHardfork ''shanghai'', eips = [1559]\<rparr>\<rparr>)
     = Inl (UnsupportedRuleSet (OtherHardfork ''shanghai''))
   \<and> VM_constructor example_Env
     (example_opts\<lparr>common := Some \<lparr>chain_name = Mainnet, hardfork = Berlin, eips = [1559]\<rparr>\<rparr>)
     \<noteq> Inl (UnsupportedRuleSet Berlin)"
  using VM_constructor_UnsupportedRuleSet_iff
    [where opts = "example_opts\<lparr>common := Some \<lparr>chain_name = Mainnet, hardfork = OtherHardfork ''shanghai'', eips = [1559]\<rparr>\<rparr>"
       and E = example_Env and h = "OtherHardfork ''shanghai''"]
    VM_constructor_UnsupportedRuleSet_iff
    [where opts = "example_opts\<lparr>common := Some \<lparr>chain_name = Mainnet, hardfork = Berlin, eips = [1559]\<rparr>\<rparr>"
       and E = example_Env and h = Berlin]
  by (simp add: example_opts_def resolveCommon_def supportedHardforks_def supportedEIPs_def)

text \<open>
  A \<open>common\<close> with an unsupported tag and an unsupported amendment: the amendment check
  comes first, and the error is \<open>UnsupportedAmendment\<close>.
\<close>

theorem VM_constructor_UnsupportedRuleSet_counterexample:
  "hardfork \<lparr>chain_name = Mainnet, hardfork = OtherHardfork ''shanghai'', eips = [9999]\<rparr>
     \<notin> set supportedHardforks
   \<and> VM_constructor example_Env
     (example_opts\<lparr>common := Some \<lparr>chain_name = Mainnet, hardfork = OtherHardfork ''shanghai'', eips = [9999]\<rparr>\<rparr>)
     = Inl (UnsupportedAmendment 9999)"
  by (simp add: VM_constructor_def example_opts_def resolveCommon_def supportedHardforks_def
      supportedEIPs_def)

section \<open>Precompile priming\<close>

lemma getAccount_putAccount:
  "getAccount (putAccount s x acc) a = (if a = x then acc else getAccount s a)"
  by (simp add: getAccount_def putAccount_def)

lemma primed_not_empty: "b \<noteq> 0 \<Longrightarrow> \<not> isEmpty (Account_fromAccountData b r)"
  by (simp add: isEmpty_def Account_fromAccountData_def)

lemma stateRoot_fromAccountData: "stateRoot (Account_fromAccountData b r) = r"
  by (simp add: Account_fromAccountData_def)

lemma primePrecompiles_getAccount:
  "getAccount (primePrecompiles ps s) a =
     (if a \<in> set ps \<and> isEmpty (getAccount s a)
      then Account_fromAccountData 1 (stateRoot (getAccount s a))
      else getAccount s a)"
proof (induction ps arbitrary: s)
  case Nil
  then show ?case by simp
next
  case (Cons x ps)
  show ?case
  proof (cases "isEmpty (getAccount s x)")
    case True
    then show ?thesis
      by (auto simp: Cons.IH getAccount_putAccount primed_not_empty Let_def)
  next
    case False
    then show ?thesis
      by (auto simp: Cons.IH Let_def)
  qed
qed

lemma primePrecompiles_checkpoints:
  "checkpoints (primePrecompiles ps s) = checkpoints s"
  by (induction ps arbitrary: s) (simp_all add: Let_def putAccount_def)

lemma primePrecompiles_calls:
  "\<exists>ws. calls (primePrecompiles ps s) = calls s @ ws
        \<and> (\<forall>c \<in> set ws. \<exists>a acc. c = CallPutAccount a acc \<and> a \<in> set ps)"
proof (induction ps arbitrary: s)
  case Nil
  then show ?case by simp
next
  case (Cons x ps)
  show ?case
  proof (cases "isEmpty (getAccount s x)")
    case True
    let ?s' = "putAccount s x (Account_fromAccountData 1 (stateRoot (getAccount s x)))"
    from Cons.IH[of ?s'] obtain ws where
      ws: "calls (primePrecompiles ps ?s') = calls ?s' @ ws"
          "\<forall>c \<in> set ws. \<exists>a acc. c = CallPutAccount a acc \<and> a \<in> set ps"
      by blast
    have "calls (primePrecompiles (x # ps) s) =
            calls s @ (CallPutAccount x (Account_fromAccountData 1 (stateRoot (getAccount s x))) # ws)"
      using True ws(1) by (simp add: Let_def putAccount_def)
    moreover have "\<forall>c \<in> set (CallPutAccount x (Account_fromAccountData 1 (stateRoot (getAccount s x))) # ws).
                     \<exists>a acc. c = CallPutAccount a acc \<and> a \<in> set (x # ps)"
      using ws(2) by auto
    ultimately show ?thesis by blast
  next
    case False
    from Cons.IH[of s] obtain ws where
      ws: "calls (primePrecompiles ps s) = calls s @ ws"
          "\<forall>c \<in> set ws. \<exists>a acc. c = CallPutAccount a acc \<and> a \<in> set ps"
      by blast
    have "calls (primePrecompiles (x # ps) s) = calls s @ ws"
      using False ws(1) by (simp add: Let_def)
    moreover have "\<forall>c \<in> set ws. \<exists>a acc. c = CallPutAccount a acc \<and> a \<in> set (x # ps)"
      using ws(2) by auto
    ultimately show ?thesis by blast
  qed
qed

lemma getAccount_checkpoint: "getAccount (checkpoint s) a = getAccount s a"
  by (simp add: getAccount_def checkpoint_def)

lemma priming_block:
  "\<exists>s'. commit (primePrecompiles ps (checkpoint s)) = Inr s' \<and> primed ps s s'"
proof -
  let ?m = "primePrecompiles ps (checkpoint s)"
  have cp: "checkpoints ?m = accounts s # checkpoints s"
    by (simp add: primePrecompiles_checkpoints checkpoint_def)
  obtain ws where ws: "calls ?m = calls (checkpoint s) @ ws"
      "\<forall>c \<in> set ws. \<exists>a acc. c = CallPutAccount a acc \<and> a \<in> set ps"
    using primePrecompiles_calls[of ps "checkpoint s"] by blast
  let ?s' = "?m\<lparr>checkpoints := checkpoints s, calls := calls ?m @ [CallCommit]\<rparr>"
  have c: "commit ?m = Inr ?s'"
    by (simp add: commit_def cp)
  have g: "getAccount ?s' a = getAccount ?m a" for a
    by (simp add: getAccount_def)
  have "primed ps s ?s'"
    unfolding primed_def
  proof (intro conjI allI)
    fix a
    show "getAccount ?s' a =
        (if a \<in> set ps \<and> isEmpty (getAccount s a)
         then Account_fromAccountData 1 (stateRoot (getAccount s a))
         else getAccount s a)"
      by (simp only: g primePrecompiles_getAccount getAccount_checkpoint)
    show "\<exists>ws. calls ?s' = calls s @ [CallCheckpoint] @ ws @ [CallCommit]
          \<and> (\<forall>c \<in> set ws. \<exists>a acc. c = CallPutAccount a acc \<and> a \<in> set ps)"
      using ws by (intro exI[of _ ws]) (simp add: checkpoint_def)
    show "checkpoints ?s' = checkpoints s" by simp
  qed
  with c show ?thesis by blast
qed

lemma eei_state_set: "eei_state (set_eei_state s vm) = s"
  by (cases "vm_eei vm") (simp_all add: set_eei_state_def eei_state_def)

lemma set_eei_state_fields:
  "vm_opts (set_eei_state s vm) = vm_opts vm"
  "vm_common (set_eei_state s vm) = vm_common vm"
  "vm_blockchain (set_eei_state s vm) = vm_blockchain vm"
  "vm_isInitialized (set_eei_state s vm) = vm_isInitialized vm"
  by (cases "vm_eei vm"; simp add: set_eei_state_def)+

lemma init_genesis_fields:
  assumes "init_genesis E vm = Inr vm1"
  shows "vm_opts vm1 = vm_opts vm" "vm_common vm1 = vm_common vm"
    "vm_blockchain vm1 = vm_blockchain vm" "vm_isInitialized vm1 = vm_isInitialized vm"
  using assms
  by (auto simp: init_genesis_def set_eei_state_fields split: if_splits sum.splits)

text \<open>
  C9. Precompile priming touches empty precompile accounts only. When \<open>init\<close> runs on an
  engine that is not yet initialized, with \<open>activatePrecompiles\<close> set and no external
  state store, and the block store and the optional genesis step succeed, then \<open>init\<close>
  succeeds and, against the store \<open>eei_state vm1\<close> found when priming starts (after
  genesis, if any): an account that was not empty, and any account outside the precompile
  addresses, reads exactly as before; a precompile account that was empty now has balance
  1, nonce 0, the empty code hash and its former storage root; the calls the store received
  are one checkpoint, then account writes to precompile addresses only, then one commit;
  and the checkpoint stack is back to what it was.
\<close>

theorem init_primes_only_empty_precompiles:
  assumes "\<not> vm_isInitialized vm"
    and "stateManager (vm_opts vm) = None"
    and "truthy (activatePrecompiles (vm_opts vm))"
    and "Blockchain_init E (vm_blockchain vm) = Inr bc"
    and "init_genesis E (vm\<lparr>vm_blockchain := bc\<rparr>) = Inr vm1"
  shows "\<exists>vm'. init E vm = Inr vm'
           \<and> (\<forall>a. getAccount (eei_state vm') a =
                 (if a \<in> set (getActivePrecompiles E (vm_common vm)) \<and> isEmpty (getAccount (eei_state vm1) a)
                  then Account_fromAccountData 1 (stateRoot (getAccount (eei_state vm1) a))
                  else getAccount (eei_state vm1) a))
           \<and> (\<exists>ws. calls (eei_state vm') = calls (eei_state vm1) @ [CallCheckpoint] @ ws @ [CallCommit]
                 \<and> (\<forall>c \<in> set ws. \<exists>a acc. c = CallPutAccount a acc
                                         \<and> a \<in> set (getActivePrecompiles E (vm_common vm))))
           \<and> checkpoints (eei_state vm') = checkpoints (eei_state vm1)"
proof -
  let ?ps = "getActivePrecompiles E (vm_common vm)"
  have f: "vm_opts vm1 = vm_opts vm" "vm_common vm1 = vm_common vm"
    using init_genesis_fields[OF assms(5)] by simp_all
  obtain s' where s': "commit (primePrecompiles ?ps (checkpoint (eei_state vm1))) = Inr s'"
      "primed ?ps (eei_state vm1) s'"
    using priming_block by blast
  have p: "init_precompiles E vm1 = Inr (set_eei_state s' vm1)"
    using assms(2,3) s'(1) by (simp add: init_precompiles_def f)
  have i: "init E vm = Inr ((set_eei_state s' vm1)\<lparr>vm_isInitialized := True\<rparr>)"
    using assms(1,4,5) p by (simp add: init_def)
  have e: "eei_state ((set_eei_state s' vm1)\<lparr>vm_isInitialized := True\<rparr>) = s'"
    by (cases "vm_eei vm1") (simp_all add: eei_state_def set_eei_state_def)
  from s'(2) show ?thesis
    unfolding primed_def i by (simp only: e sum.inject simp_thms ex_simps)
qed

theorem init_primes_only_empty_precompiles_witness:
  "\<exists>vm'. init example_Env
            (example_vm (example_opts\<lparr>activatePrecompiles := Some True,
                                       activateGenesisState := Some True\<rparr>)) = Inr vm'
         \<and> getAccount (eei_state vm') example_precompile_1 = Account_fromAccountData 1 KECCAK256_RLP
         \<and> getAccount (eei_state vm') example_precompile_2 = example_genesis_account
         \<and> (\<exists>ws. calls (eei_state vm') = CallCheckpoint # ws @ [CallCommit])
         \<and> checkpoints (eei_state vm') = []"
proof -
  let ?opts = "example_opts\<lparr>activatePrecompiles := Some True, activateGenesisState := Some True\<rparr>"
  let ?vm = "example_vm ?opts"
  let ?s1 = "example_store\<lparr>accounts := [example_precompile_2 \<mapsto> example_genesis_account]\<rparr>"
  let ?vm1 = "?vm\<lparr>vm_blockchain := 1, vm_stateManager := ?s1\<rparr>"
  have fresh: "\<not> vm_isInitialized ?vm"
    and own_store: "stateManager (vm_opts ?vm) = None"
    and flag: "truthy (activatePrecompiles (vm_opts ?vm))"
    by (simp_all add: example_vm_def example_opts_def truthy_def)
  have store: "Blockchain_init example_Env (vm_blockchain ?vm) = Inr 1"
    by (simp add: example_Env_def example_vm_def)
  have genesis: "init_genesis example_Env (?vm\<lparr>vm_blockchain := 1\<rparr>) = Inr ?vm1"
    by (simp add: init_genesis_def example_Env_def example_vm_def example_opts_def truthy_def
        eei_state_def set_eei_state_def example_store_def)
  have before: "eei_state ?vm1 = ?s1"
    by (simp add: eei_state_def example_vm_def)
  have g1: "getAccount ?s1 example_precompile_1 = Account_new"
    and g2: "getAccount ?s1 example_precompile_2 = example_genesis_account"
    by (simp_all add: getAccount_def example_store_def example_precompile_1_def
        example_precompile_2_def)
  have e1: "isEmpty Account_new" and e2: "\<not> isEmpty example_genesis_account"
    and r1: "stateRoot Account_new = KECCAK256_RLP"
    by (simp_all add: isEmpty_def Account_new_def example_genesis_account_def)
  from init_primes_only_empty_precompiles[OF fresh own_store flag store genesis]
  obtain vm' where vm': "init example_Env ?vm = Inr vm'"
    and acc: "\<And>a. getAccount (eei_state vm') a =
                 (if a \<in> set (getActivePrecompiles example_Env (vm_common ?vm)) \<and> isEmpty (getAccount ?s1 a)
                  then Account_fromAccountData 1 (stateRoot (getAccount ?s1 a))
                  else getAccount ?s1 a)"
    and log: "\<exists>ws. calls (eei_state vm') = calls ?s1 @ [CallCheckpoint] @ ws @ [CallCommit]"
    and cps: "checkpoints (eei_state vm') = checkpoints ?s1"
    unfolding before by blast
  have "getAccount (eei_state vm') example_precompile_1 = Account_fromAccountData 1 KECCAK256_RLP"
    using acc[of example_precompile_1] by (simp add: g1 e1 r1 example_Env_def)
  moreover have "getAccount (eei_state vm') example_precompile_2 = example_genesis_account"
    using acc[of example_precompile_2] by (simp add: g2 e2)
  moreover have "\<exists>ws. calls (eei_state vm') = CallCheckpoint # ws @ [CallCommit]"
    using log by (simp add: example_store_def)
  moreover have "checkpoints (eei_state vm') = []"
    using cps by (simp add: example_store_def)
  ultimately show ?thesis using vm' by blast
qed

section \<open>Copying an engine\<close>

lemma init_precompiles_fields:
  assumes "init_precompiles E vm = Inr vm1"
  shows "vm_opts vm1 = vm_opts vm" "vm_common vm1 = vm_common vm"
    "vm_blockchain vm1 = vm_blockchain vm" "vm_isInitialized vm1 = vm_isInitialized vm"
  using assms
  by (auto simp: init_precompiles_def set_eei_state_fields split: if_splits sum.splits)

lemma init_common:
  assumes "init E vm = Inr vm'"
  shows "vm_common vm' = vm_common vm"
proof (cases "vm_isInitialized vm")
  case True
  with assms show ?thesis by (simp add: init_def)
next
  case False
  with assms obtain bc vm1 vm2 where
    "init_genesis E (vm\<lparr>vm_blockchain := bc\<rparr>) = Inr vm1"
    "init_precompiles E vm1 = Inr vm2" "vm' = vm2\<lparr>vm_isInitialized := True\<rparr>"
    by (auto simp: init_def split: sum.splits)
  then show ?thesis
    using init_genesis_fields(2)[of E "vm\<lparr>vm_blockchain := bc\<rparr>" vm1]
      init_precompiles_fields(2)[of E vm1 vm2] by simp
qed

lemma VM_constructor_common:
  assumes "VM_constructor E opts = Inr vm"
  shows "Common_supported (vm_common vm)"
proof -
  from assms obtain c where c: "resolveCommon opts = Inr c" "hardfork c \<in> set supportedHardforks"
      "vm_common vm = c"
    by (auto simp: VM_constructor_def Let_def split: if_splits sum.splits)
  from c(1) have "find (\<lambda>eip. eip \<notin> set supportedEIPs) (eips c) = None"
    by (auto simp: resolveCommon_def Common_new_def split: option.splits)
  with c show ?thesis by (simp add: Common_supported_def)
qed

text \<open>
  Every engine that \<open>create\<close> returns has chain parameters that pass the constructor's
  checks; \<^verbatim>\<open>index.ts\<close> never assigns \<^verbatim>\<open>_common\<close> again.
\<close>

lemma VM_create_common:
  assumes "VM_create E opts = Inr vm"
  shows "Common_supported (vm_common vm)"
proof -
  from assms obtain vm0 where v: "VM_constructor E opts = Inr vm0" "init E vm0 = Inr vm"
    by (auto simp: VM_create_def split: sum.splits)
  from init_common[OF v(2)] VM_constructor_common[OF v(1)] show ?thesis by simp
qed

text \<open>
  An engine with the default EEI executes on its \<^verbatim>\<open>stateManager\<close>. Provided the copy of
  its chain parameters passes the constructor's checks and the block store's \<^verbatim>\<open>_init\<close>
  succeeds on the copied block store, \<open>copy\<close> succeeds, and the new engine executes on
  the result of the state store's copy operation, untouched by initialization.
\<close>

lemma VM_copy_default_eei:
  assumes default_eei: "vm_eei vm = DefaultEEI"
    and params: "Common_supported (Common_copy E (vm_common vm))"
    and bc_ok: "Blockchain_init E (Blockchain_copy E (vm_blockchain vm)) = Inr bc'"
  shows "\<exists>vm'. VM_copy E vm = Inr vm'
           \<and> eei_state vm' = StateManager_copy E (eei_state vm)
           \<and> vm_stateManager vm' = StateManager_copy E (vm_stateManager vm)
           \<and> vm_blockchain vm' = bc'
           \<and> vm_common vm' = Common_copy E (vm_common vm)
           \<and> vm_isInitialized vm'"
proof -
  let ?opts = "\<lparr>common = Some (Common_copy E (vm_common vm)),
        stateManager = Some (StateManager_copy E (vm_stateManager vm)),
        blockchain = Some (Blockchain_copy E (vm_blockchain vm)),
        activatePrecompiles = None, activateGenesisState = None,
        hardforkByBlockNumber = None, hardforkByTD = None,
        eei = None, evm = None, otherKeys = []\<rparr> :: ('a, 'b) VMOpts"
  let ?vm0 = "\<lparr>vm_stateManager = StateManager_copy E (vm_stateManager vm),
        vm_blockchain = Blockchain_copy E (vm_blockchain vm),
        vm_common = Common_copy E (vm_common vm), vm_evm = DefaultEVM,
        vm_eei = DefaultEEI, vm_opts = ?opts, vm_isInitialized = False,
        vm_hardforkByBlockNumber = False, vm_hardforkByTD = None,
        vm_DEBUG = process_env_DEBUG E\<rparr> :: ('a, 'b) VM"
  have r: "resolveCommon ?opts = Inr (Common_copy E (vm_common vm))"
    using params by (simp add: resolveCommon_def Common_supported_def)
  have c: "VM_constructor E ?opts = Inr ?vm0"
    using params by (simp add: VM_constructor_def r Common_supported_def)
  have i: "init E ?vm0 = Inr (?vm0\<lparr>vm_blockchain := bc', vm_isInitialized := True\<rparr>)"
    using init_with_stateManager[of ?vm0 E] bc_ok by simp
  have "VM_copy E vm = Inr (?vm0\<lparr>vm_blockchain := bc', vm_isInitialized := True\<rparr>)"
    by (simp add: VM_copy_def VM_create_def c i)
  then show ?thesis by (simp add: eei_state_def default_eei)
qed

text \<open>
  With the default EEI and genesis activated, the copy starts from the genesis state.
\<close>

lemma VM_copy_default_eei_keeps_state:
  "VM_create example_Env (example_opts\<lparr>activateGenesisState := Some True\<rparr>)
     = Inr ((example_vm (example_opts\<lparr>activateGenesisState := Some True\<rparr>))
              \<lparr>vm_blockchain := 1,
               vm_stateManager :=
                 example_store\<lparr>accounts := [example_precompile_2 \<mapsto> example_genesis_account]\<rparr>,
               vm_isInitialized := True\<rparr>)
   \<and> map_sum id eei_state
        (VM_copy example_Env
          ((example_vm (example_opts\<lparr>activateGenesisState := Some True\<rparr>))
              \<lparr>vm_blockchain := 1,
               vm_stateManager :=
                 example_store\<lparr>accounts := [example_precompile_2 \<mapsto> example_genesis_account]\<rparr>,
               vm_isInitialized := True\<rparr>))
       = Inr (example_store\<lparr>accounts := [example_precompile_2 \<mapsto> example_genesis_account]\<rparr>)"
  by (simp add: VM_create_def VM_copy_def VM_constructor_def init_def init_genesis_def
      init_precompiles_def resolveCommon_def Common_new_def supportedHardforks_def
      eei_state_def set_eei_state_def truthy_def
      example_Env_def example_opts_def example_vm_def example_store_def)

text \<open>
  C7. \<open>copy\<close> clones the engine's \<^verbatim>\<open>stateManager\<close>, not the store its EEI executes on,
  and hands the new engine no EEI. An engine created with a custom EEI and genesis
  activated, and no \<^verbatim>\<open>stateManager\<close> option, holds the genesis account in the store
  behind \<^verbatim>\<open>eei.state\<close>, while its \<^verbatim>\<open>stateManager\<close> stays as constructed. Its copy, made
  with a state store copy that keeps every account, executes on the clone of that
  untouched store: the address that genesis funded reads there as an empty account. The
  original and its copy do not start from the same state.
\<close>

theorem VM_copy_custom_eei_loses_state:
  "VM_create example_Env (example_opts\<lparr>activateGenesisState := Some True, eei := Some example_store\<rparr>)
     = Inr ((example_vm (example_opts\<lparr>activateGenesisState := Some True, eei := Some example_store\<rparr>))
              \<lparr>vm_blockchain := 1,
               vm_eei := CustomEEI
                 (example_store\<lparr>accounts := [example_precompile_2 \<mapsto> example_genesis_account]\<rparr>),
               vm_isInitialized := True\<rparr>)
   \<and> getAccount
        (eei_state
          ((example_vm (example_opts\<lparr>activateGenesisState := Some True, eei := Some example_store\<rparr>))
              \<lparr>vm_blockchain := 1,
               vm_eei := CustomEEI
                 (example_store\<lparr>accounts := [example_precompile_2 \<mapsto> example_genesis_account]\<rparr>),
               vm_isInitialized := True\<rparr>))
        example_precompile_2 = example_genesis_account
   \<and> map_sum id eei_state
        (VM_copy example_Env
          ((example_vm (example_opts\<lparr>activateGenesisState := Some True, eei := Some example_store\<rparr>))
              \<lparr>vm_blockchain := 1,
               vm_eei := CustomEEI
                 (example_store\<lparr>accounts := [example_precompile_2 \<mapsto> example_genesis_account]\<rparr>),
               vm_isInitialized := True\<rparr>))
       = Inr example_store
   \<and> getAccount example_store example_precompile_2 = Account_new
   \<and> Account_new \<noteq> example_genesis_account"
  by (simp add: VM_create_def VM_copy_def VM_constructor_def init_def init_genesis_def
      init_precompiles_def resolveCommon_def Common_new_def supportedHardforks_def
      eei_state_def set_eei_state_def truthy_def getAccount_def
      example_Env_def example_opts_def example_vm_def example_store_def
      Account_new_def example_genesis_account_def)

end
